theory Spec2Isabelle
  imports Complex_Main
begin

section \<open>Data model of the disease simulation\<close>

text \<open>
  The model follows the COVID-19 disease model (\<^verbatim>\<open>createPopulation\<close>,
  \<^verbatim>\<open>updatePopulation\<close>, \<^verbatim>\<open>computeStatistics\<close>) and its driver
  \<^verbatim>\<open>Simulation.jsx\<close>.

  An individual is the object literal pushed by \<^verbatim>\<open>createPopulation\<close>. The field
  \<^verbatim>\<open>id\<close> is called \<open>ident\<close> here. The state is the JavaScript string itself, so a
  population may hold any string; the day counters are the integer-valued numbers the
  code only ever resets to 0 or increments by 1 (idealised as unbounded integers), the
  coordinates are idealised as reals.
\<close>

record individual =
  ident :: nat
  x :: real
  y :: real
  state :: string
  daysExposed :: int
  daysInfected :: int
  quarantined :: bool
  newlyExposed :: bool
  newlyInfected :: bool

text \<open>
  A population is the JavaScript array. The objects of the array are pairwise distinct
  (\<^verbatim>\<open>createPopulation\<close> pushes a fresh object per index and the driver only copies the
  array), so an object is identified with its index and the in-place mutation of an
  object is the update of the list at that index.
\<close>

type_synonym population = "individual list"

text \<open>
  The parameter record \<^verbatim>\<open>defaultSimulationParameters\<close>. The driver reads the two time
  parameters with \<^verbatim>\<open>parseInt\<close> and the four others with \<^verbatim>\<open>parseFloat\<close>.
\<close>

record params =
  infectionRate :: real
  incubationTime :: int
  recoveryTime :: int
  reinfectionProbability :: real
  quarantineThreshold :: real
  quarantineReductionFactor :: real

definition defaultSimulationParameters :: params where
  "defaultSimulationParameters =
     \<lparr> infectionRate = 3 / 10,
       incubationTime = 5,
       recoveryTime = 14,
       reinfectionProbability = 1 / 100,
       quarantineThreshold = 1 / 10,
       quarantineReductionFactor = 3 / 10 \<rparr>"

text \<open>The record returned by \<^verbatim>\<open>computeStatistics\<close>; \<^verbatim>\<open>round\<close> is called \<open>roundNo\<close>.\<close>

record statistics =
  roundNo :: nat
  healthy :: nat
  exposed :: nat
  infected :: nat
  recovered :: nat

text \<open>
  \<^verbatim>\<open>Math.random()\<close> is an external source of numbers: the sequence of its results is a
  parameter \<open>rnd\<close>, and every function that draws from it takes the number \<open>k\<close> of
  draws made so far and returns the new count. The results of \<^verbatim>\<open>Math.random()\<close> lie
  in \<open>[0, 1)\<close>; theorems that depend on it assume so.
\<close>

type_synonym rand = "nat \<Rightarrow> real"

text \<open>
  The result of the division \<^verbatim>\<open>infectedCount / population.length\<close>: a JavaScript
  division never raises; \<^verbatim>\<open>0 / 0\<close> is \<^verbatim>\<open>NaN\<close> and \<^verbatim>\<open>n / 0\<close> is \<^verbatim>\<open>Infinity\<close>
  for positive \<open>n\<close>. A comparison \<^verbatim>\<open>>=\<close> with \<^verbatim>\<open>NaN\<close> is false.
\<close>

datatype jsnum = Finite real | PosInf | NaN

definition jsdiv :: "nat \<Rightarrow> nat \<Rightarrow> jsnum" where
  "jsdiv n d = (if d = 0 then (if n = 0 then NaN else PosInf) else Finite (real n / real d))"

fun jsge :: "jsnum \<Rightarrow> real \<Rightarrow> bool" where
  "jsge (Finite r) t = (t \<le> r)"
| "jsge PosInf t = True"
| "jsge NaN t = False"

text \<open>
  The only failure of the model's code: \<^verbatim>\<open>createPopulation\<close> reads
  \<^verbatim>\<open>population[Math.floor(Math.random() * size)]\<close> and assigns to a field of the result,
  which raises a \<^verbatim>\<open>TypeError\<close> when the read is out of range (the value is
  \<^verbatim>\<open>undefined\<close>).
\<close>

datatype error = TypeError

section \<open>createPopulation\<close>

text \<open>
  Lines 85 to 107 of the disease model. The size is a JavaScript number, an integer or
  not: the driver passes \<^verbatim>\<open>popSize * popSize\<close>, where \<^verbatim>\<open>popSize\<close> may be
  \<^verbatim>\<open>Math.sqrt(parseInt(v))\<close>. It is a real here (a finite number); \<^verbatim>\<open>Math.sqrt\<close>, the
  division and the remainder are idealised on the reals. \<open>fmod\<close> is the remainder
  \<^verbatim>\<open>i % sideSize\<close> of non-negative numbers.
\<close>

definition fmod :: "real \<Rightarrow> real \<Rightarrow> real" where
  "fmod a b = a - b * of_int \<lfloor>a / b\<rfloor>"

definition newIndividual :: "real \<Rightarrow> nat \<Rightarrow> individual" where
  "newIndividual sideSize i =
     \<lparr> ident = i,
       x = (100 * fmod (real i) sideSize) / sideSize,
       y = (100 * of_int \<lfloor>real i / sideSize\<rfloor>) / sideSize,
       state = ''healthy'',
       daysExposed = 0,
       daysInfected = 0,
       quarantined = False,
       newlyExposed = False,
       newlyInfected = False \<rparr>"

text \<open>
  The loop \<^verbatim>\<open>for (let i = 0; i < size; i++)\<close> pushes the individuals \<open>0\<close> to
  \<open>\<lceil>size\<rceil> - 1\<close>, none when the size is not positive (the only case in which
  \<^verbatim>\<open>Math.sqrt(size)\<close> is not the real square root, and then it is not used). \<open>r\<close> is
  the result of the single call of \<^verbatim>\<open>Math.random()\<close>; the read
  \<^verbatim>\<open>population[Math.floor(r * size)]\<close> is \<^verbatim>\<open>undefined\<close> outside the array.
\<close>

definition createPopulation :: "real \<Rightarrow> real \<Rightarrow> error + population" where
  "createPopulation sz r =
     (let sideSize = sqrt sz;
          population = map (newIndividual sideSize) [0..<nat \<lceil>sz\<rceil>];
          idx = \<lfloor>r * sz\<rfloor>
      in if 0 \<le> idx \<and> idx < int (length population)
         then Inr (population[nat idx := (population ! nat idx)\<lparr>state := ''infected'', daysInfected := 0\<rparr>])
         else Inl TypeError)"

section \<open>updatePopulation\<close>

subsection \<open>Quarantine determination\<close>

text \<open>
  Lines 112 to 121: the count of the infected, its division by the length, and the one
  test \<^verbatim>\<open>fractionInfected >= params.quarantineThreshold\<close> that sets both
  \<^verbatim>\<open>quarantineActive\<close> and \<^verbatim>\<open>effectiveInfectionRate\<close>.
\<close>

definition infectedCount :: "population \<Rightarrow> nat" where
  "infectedCount pop = length (filter (\<lambda>p. state p = ''infected'') pop)"

definition fractionInfected :: "population \<Rightarrow> jsnum" where
  "fractionInfected pop = jsdiv (infectedCount pop) (length pop)"

definition quarantineActive :: "population \<Rightarrow> params \<Rightarrow> bool" where
  "quarantineActive pop ps = jsge (fractionInfected pop) (quarantineThreshold ps)"

definition effectiveInfectionRate :: "population \<Rightarrow> params \<Rightarrow> real" where
  "effectiveInfectionRate pop ps =
     (if jsge (fractionInfected pop) (quarantineThreshold ps)
      then infectionRate ps * quarantineReductionFactor ps
      else infectionRate ps)"

subsection \<open>Exposure pass\<close>

text \<open>
  Lines 125 to 147. \<open>distance p other\<close> is the local \<^verbatim>\<open>dist\<close> of the inner loop.
\<close>

definition infectionDistance :: real where
  "infectionDistance = 6"

definition distance :: "individual \<Rightarrow> individual \<Rightarrow> real" where
  "distance p other = (let dx = x p - x other; dy = y p - y other in sqrt (dx * dx + dy * dy))"

text \<open>
  The inner loop \<^verbatim>\<open>for (let other of population)\<close> for one infected \<open>p\<close>: \<open>j\<close> is the
  index of the head of the remaining list, \<open>ne\<close> is \<^verbatim>\<open>newExposures\<close> (the indices of
  the objects pushed so far, in order), \<open>k\<close> counts the draws. A number is drawn for
  every healthy individual within the distance, before the test \<^verbatim>\<open>includes\<close>.
\<close>

fun scanOthers :: "real \<Rightarrow> rand \<Rightarrow> individual \<Rightarrow> population \<Rightarrow> nat \<Rightarrow> nat list \<times> nat \<Rightarrow> nat list \<times> nat" where
  "scanOthers rate rnd p [] j (ne, k) = (ne, k)"
| "scanOthers rate rnd p (other # rest) j (ne, k) =
     (if state other = ''healthy'' then
        (if distance p other \<le> infectionDistance then
           (if rnd k < rate then
              (if j \<in> set ne
               then scanOthers rate rnd p rest (Suc j) (ne, Suc k)
               else scanOthers rate rnd p rest (Suc j) (ne @ [j], Suc k))
            else scanOthers rate rnd p rest (Suc j) (ne, Suc k))
         else scanOthers rate rnd p rest (Suc j) (ne, k))
      else scanOthers rate rnd p rest (Suc j) (ne, k))"

text \<open>The body of the outer loop \<^verbatim>\<open>for (let p of population)\<close> at index \<open>i\<close>.\<close>

definition exposeStep :: "bool \<Rightarrow> real \<Rightarrow> rand \<Rightarrow> nat \<Rightarrow> population \<times> nat list \<times> nat \<Rightarrow> population \<times> nat list \<times> nat" where
  "exposeStep qa rate rnd i s =
     (case s of (pop, ne, k) \<Rightarrow>
        if state (pop ! i) = ''infected'' then
          (let pop' = pop[i := (pop ! i)\<lparr>quarantined := qa\<rparr>]
           in case scanOthers rate rnd (pop' ! i) pop' 0 (ne, k) of
                (ne', k') \<Rightarrow> (pop', ne', k'))
        else (pop, ne, k))"

definition exposurePass :: "bool \<Rightarrow> real \<Rightarrow> rand \<Rightarrow> population \<Rightarrow> nat \<Rightarrow> population \<times> nat list \<times> nat" where
  "exposurePass qa rate rnd pop k = fold (exposeStep qa rate rnd) [0..<length pop] (pop, [], k)"

subsection \<open>Commit of the pending exposures\<close>

text \<open>Lines 150 to 154: \<^verbatim>\<open>newExposures.forEach\<close>, in the order of the pushes.\<close>

definition markExposed :: "individual \<Rightarrow> individual" where
  "markExposed person = person\<lparr>state := ''exposed'', daysExposed := 0, newlyExposed := True\<rparr>"

definition commitExposures :: "nat list \<Rightarrow> population \<Rightarrow> population" where
  "commitExposures ne pop = fold (\<lambda>j pop'. pop'[j := markExposed (pop' ! j)]) ne pop"

subsection \<open>State advance\<close>

text \<open>
  Lines 157 to 189. \<open>advanceIndividual\<close> is the body of the second loop
  \<^verbatim>\<open>for (let p of population)\<close>: the branch is chosen by the state the individual
  has when the loop reaches it, and only the branch of the recovered draws a number.
\<close>

definition advanceIndividual :: "params \<Rightarrow> rand \<Rightarrow> individual \<Rightarrow> nat \<Rightarrow> individual \<times> nat" where
  "advanceIndividual ps rnd p k =
     (if state p = ''exposed'' then
        (let p1 = (if newlyExposed p then p\<lparr>newlyExposed := False\<rparr> else p);
             p2 = p1\<lparr>daysExposed := daysExposed p1 + 1\<rparr>
         in if daysExposed p2 \<ge> incubationTime ps
            then (p2\<lparr>state := ''infected'', daysExposed := 0, daysInfected := 0, newlyInfected := True\<rparr>, k)
            else (p2, k))
      else if state p = ''infected'' then
        (let p1 = (if newlyInfected p then p\<lparr>newlyInfected := False\<rparr> else p);
             p2 = p1\<lparr>daysInfected := daysInfected p1 + 1\<rparr>
         in if daysInfected p2 \<ge> recoveryTime ps
            then (p2\<lparr>state := ''recovered'', daysInfected := 0, quarantined := False\<rparr>, k)
            else (p2, k))
      else if state p = ''recovered'' then
        (if rnd k < reinfectionProbability ps
         then (p\<lparr>state := ''healthy''\<rparr>, Suc k)
         else (p, Suc k))
      else (p, k))"

fun advancePass :: "params \<Rightarrow> rand \<Rightarrow> population \<Rightarrow> nat \<Rightarrow> population \<times> nat" where
  "advancePass ps rnd [] k = ([], k)"
| "advancePass ps rnd (p # rest) k =
     (case advanceIndividual ps rnd p k of
        (p', k') \<Rightarrow> (case advancePass ps rnd rest k' of
                      (rest', k'') \<Rightarrow> (p' # rest', k'')))"

subsection \<open>The round\<close>

text \<open>
  \<^verbatim>\<open>updatePopulation\<close> returns the array it was given; the result here is the array's
  new content and the new count of draws.
\<close>

definition updatePopulation :: "population \<Rightarrow> params \<Rightarrow> rand \<Rightarrow> nat \<Rightarrow> population \<times> nat" where
  "updatePopulation pop ps rnd k =
     (let qa = quarantineActive pop ps;
          rate = effectiveInfectionRate pop ps
      in case exposurePass qa rate rnd pop k of
           (pop1, newExposures, k1) \<Rightarrow>
             advancePass ps rnd (commitExposures newExposures pop1) k1)"

section \<open>computeStatistics\<close>

text \<open>Lines 204 to 210.\<close>

definition computeStatistics :: "population \<Rightarrow> nat \<Rightarrow> statistics" where
  "computeStatistics pop r =
     \<lparr> roundNo = r,
       healthy = length (filter (\<lambda>p. state p = ''healthy'') pop),
       exposed = length (filter (\<lambda>p. state p = ''exposed'') pop),
       infected = length (filter (\<lambda>p. state p = ''infected'') pop),
       recovered = length (filter (\<lambda>p. state p = ''recovered'') pop) \<rparr>"

section \<open>The driver\<close>

text \<open>
  \<^verbatim>\<open>runTurn\<close> of the driver calls \<^verbatim>\<open>updatePopulation\<close> on the current population and
  keeps the result; \<open>runRounds n\<close> is \<open>n\<close> turns in a row.
\<close>

fun runRounds :: "nat \<Rightarrow> population \<Rightarrow> params \<Rightarrow> rand \<Rightarrow> nat \<Rightarrow> population \<times> nat" where
  "runRounds 0 pop ps rnd k = (pop, k)"
| "runRounds (Suc n) pop ps rnd k =
     (case updatePopulation pop ps rnd k of (pop', k') \<Rightarrow> runRounds n pop' ps rnd k')"

section \<open>Notions used in the statements\<close>

subsection \<open>The passes of a round\<close>

text \<open>What the exposure pass does to one individual: the assignment to \<^verbatim>\<open>p.quarantined\<close>.\<close>

definition setQuarantined :: "bool \<Rightarrow> individual \<Rightarrow> individual" where
  "setQuarantined qa p = (if state p = ''infected'' then p\<lparr>quarantined := qa\<rparr> else p)"

text \<open>\<^verbatim>\<open>newExposures\<close> at the end of the exposure pass of a round.\<close>

definition pending :: "population \<Rightarrow> params \<Rightarrow> rand \<Rightarrow> nat \<Rightarrow> nat list" where
  "pending pop ps rnd k =
     fst (snd (exposurePass (quarantineActive pop ps) (effectiveInfectionRate pop ps) rnd pop k))"

text \<open>The population between the commit of the exposures and the state advance.\<close>

definition afterCommit :: "population \<Rightarrow> params \<Rightarrow> rand \<Rightarrow> nat \<Rightarrow> population" where
  "afterCommit pop ps rnd k =
     commitExposures (pending pop ps rnd k)
       (fst (exposurePass (quarantineActive pop ps) (effectiveInfectionRate pop ps) rnd pop k))"

subsection \<open>Transmission trials, as the design describes them\<close>

text \<open>
  The design's description of the exposure pass: for every infected individual \<open>i\<close>, in
  order, and every healthy individual \<open>j\<close>, in order, within the contact radius, one
  trial is drawn. \<open>contacts\<close> lists these pairs in the order of the scan; \<open>runTrials\<close>
  draws one number per pair and collects the targets of the successful trials, once each.
\<close>

definition inContact :: "population \<Rightarrow> nat \<Rightarrow> nat \<Rightarrow> bool" where
  "inContact pop i j =
     (state (pop ! i) = ''infected'' \<and> state (pop ! j) = ''healthy'' \<and>
      distance (pop ! i) (pop ! j) \<le> infectionDistance)"

definition contacts :: "population \<Rightarrow> (nat \<times> nat) list" where
  "contacts pop =
     concat (map (\<lambda>i. map (Pair i) (filter (inContact pop i) [0..<length pop])) [0..<length pop])"

fun runTrials :: "real \<Rightarrow> rand \<Rightarrow> nat list \<Rightarrow> nat list \<times> nat \<Rightarrow> nat list \<times> nat" where
  "runTrials rate rnd [] (ne, k) = (ne, k)"
| "runTrials rate rnd (j # js) (ne, k) =
     runTrials rate rnd js (if rnd k < rate \<and> j \<notin> set ne then ne @ [j] else ne, Suc k)"

text \<open>The indices, from \<open>j0\<close> on, of the individuals of \<open>others\<close> that \<open>p\<close> can infect.\<close>

definition targets :: "individual \<Rightarrow> population \<Rightarrow> nat \<Rightarrow> nat list" where
  "targets p others j0 =
     map (\<lambda>t. j0 + t)
       (filter (\<lambda>t. state (others ! t) = ''healthy'' \<and> distance p (others ! t) \<le> infectionDistance)
          [0..<length others])"

subsection \<open>Properties of populations\<close>

definition validState :: "string \<Rightarrow> bool" where
  "validState s = (s = ''healthy'' \<or> s = ''exposed'' \<or> s = ''infected'' \<or> s = ''recovered'')"

definition statesValid :: "population \<Rightarrow> bool" where
  "statesValid pop = list_all (\<lambda>p. validState (state p)) pop"

definition total :: "statistics \<Rightarrow> nat" where
  "total s = healthy s + exposed s + infected s + recovered s"

definition noActiveCase :: "population \<Rightarrow> bool" where
  "noActiveCase pop = list_all (\<lambda>p. state p \<noteq> ''infected'' \<and> state p \<noteq> ''exposed'') pop"

text \<open>Each counter is zero exactly when the individual is not in the counter's state.\<close>

definition countersExact :: "individual \<Rightarrow> bool" where
  "countersExact p =
     ((daysExposed p = 0 \<longleftrightarrow> state p \<noteq> ''exposed'') \<and>
      (daysInfected p = 0 \<longleftrightarrow> state p \<noteq> ''infected''))"

text \<open>Right after the creation: nobody is exposed and both counters are zero.\<close>

definition countersCreated :: "individual \<Rightarrow> bool" where
  "countersCreated p = (state p \<noteq> ''exposed'' \<and> daysExposed p = 0 \<and> daysInfected p = 0)"

text \<open>
  After a round, for an individual \<open>p\<close> that the round has turned into \<open>p'\<close>:
  \<open>daysExposed\<close> is zero exactly when \<open>p'\<close> is not exposed, and \<open>daysInfected\<close> is zero
  exactly when \<open>p'\<close> is not infected or has become infected in this round.
\<close>

definition countersAfterRound :: "individual \<Rightarrow> individual \<Rightarrow> bool" where
  "countersAfterRound p p' =
     ((daysExposed p' = 0 \<longleftrightarrow> state p' \<noteq> ''exposed'') \<and>
      (daysInfected p' = 0 \<longleftrightarrow> state p' \<noteq> ''infected'' \<or> state p \<noteq> ''infected''))"

text \<open>
  The invariant of every observable population: \<open>daysExposed\<close> is positive for an exposed
  individual and zero for any other, \<open>daysInfected\<close> is not negative for an infected
  individual and zero for any other.
\<close>

definition countersInv :: "individual \<Rightarrow> bool" where
  "countersInv p =
     ((if state p = ''exposed'' then 0 < daysExposed p else daysExposed p = 0) \<and>
      (if state p = ''infected'' then 0 \<le> daysInfected p else daysInfected p = 0))"

text \<open>
  The populations the driver can observe: the result of \<^verbatim>\<open>createPopulation\<close>, and the
  result of \<^verbatim>\<open>updatePopulation\<close> on an observable population, for any parameters and
  any random numbers.
\<close>

inductive reachable :: "population \<Rightarrow> bool" where
  created: "createPopulation sz r = Inr pop \<Longrightarrow> reachable pop"
| updated: "reachable pop \<Longrightarrow> reachable (fst (updatePopulation pop ps rnd k))"

subsection \<open>Concrete populations\<close>

definition mkIndividual :: "nat \<Rightarrow> real \<Rightarrow> real \<Rightarrow> string \<Rightarrow> individual" where
  "mkIndividual i a b s =
     \<lparr> ident = i, x = a, y = b, state = s, daysExposed = 0, daysInfected = 0,
       quarantined = False, newlyExposed = False, newlyInfected = False \<rparr>"

text \<open>Two neighbours of the default 20 by 20 grid (spacing 5), the first one infected.\<close>

definition neighbours :: population where
  "neighbours = [mkIndividual 0 0 0 ''infected'', mkIndividual 1 5 0 ''healthy'']"

definition quiet :: population where
  "quiet = [mkIndividual 0 0 0 ''healthy'', mkIndividual 1 5 0 ''recovered'']"

definition incubating :: population where
  "incubating = [mkIndividual 0 0 0 ''exposed'', mkIndividual 1 5 0 ''healthy'']"

text \<open>An individual on the last day of the default incubation, an infected and a healthy one.\<close>

definition midIncubation :: population where
  "midIncubation =
     [(mkIndividual 0 0 0 ''exposed'')\<lparr>daysExposed := 4\<rparr>, mkIndividual 1 50 0 ''infected'',
      mkIndividual 2 0 50 ''healthy'']"

text \<open>An infected individual, its healthy neighbour and a recovered individual far away.\<close>

definition mixed :: population where
  "mixed = [mkIndividual 0 0 0 ''infected'', mkIndividual 1 5 0 ''healthy'',
            mkIndividual 2 50 50 ''recovered'']"

text \<open>Parameters with every probability outside \<open>[0, 1]\<close> but one, and no time positive.\<close>

definition outOfRange :: params where
  "outOfRange =
     \<lparr> infectionRate = 5, incubationTime = 0, recoveryTime = - 1, reinfectionProbability = 2,
       quarantineThreshold = - 1, quarantineReductionFactor = 3 / 10 \<rparr>"

text \<open>The default parameters with a quarantine threshold of 60 percent.\<close>

definition highThreshold :: params where
  "highThreshold = defaultSimulationParameters\<lparr>quarantineThreshold := 6 / 10\<rparr>"

text \<open>The result of \<^verbatim>\<open>createPopulation(1)\<close> and of \<^verbatim>\<open>createPopulation(4)\<close> when the draw is 0.\<close>

definition patientZeroAlone :: individual where
  "patientZeroAlone = mkIndividual 0 0 0 ''infected''"

definition grid4 :: population where
  "grid4 = [mkIndividual 0 0 0 ''infected'', mkIndividual 1 50 0 ''healthy'',
            mkIndividual 2 0 50 ''healthy'', mkIndividual 3 50 50 ''healthy'']"

text \<open>A random source whose every draw is 0, and one whose every draw is \<open>c\<close>.\<close>

definition zeroRand :: rand where
  "zeroRand = (\<lambda>_. 0)"

definition constRand :: "real \<Rightarrow> rand" where
  "constRand c = (\<lambda>_. c)"

text \<open>The number of recovered individuals before position \<open>i\<close>: each of them draws once.\<close>

definition recoveredBefore :: "population \<Rightarrow> nat \<Rightarrow> nat" where
  "recoveredBefore pop i = length (filter (\<lambda>p. state p = ''recovered'') (take i pop))"

section \<open>Evaluation on concrete populations\<close>

text \<open>The comparison of the distance with the radius, without the square root.\<close>

lemma distance_le:
  "distance p q \<le> infectionDistance \<longleftrightarrow>
     (x p - x q) * (x p - x q) + (y p - y q) * (y p - y q) \<le> 36"
proof -
  have "sqrt 36 = 6"
    using real_sqrt_abs[of 6] by simp
  then show ?thesis
    unfolding distance_def infectionDistance_def Let_def
    by (metis real_sqrt_le_iff)
qed

lemmas eval_defs = updatePopulation_def exposurePass_def exposeStep_def commitExposures_def
  markExposed_def advanceIndividual_def quarantineActive_def effectiveInfectionRate_def
  fractionInfected_def infectedCount_def jsdiv_def distance_le Let_def mkIndividual_def
  defaultSimulationParameters_def neighbours_def zeroRand_def

section \<open>The exposure pass runs the trials of the contacts\<close>

lemma targets_Nil: "targets p [] j0 = []"
  by (simp add: targets_def)

lemma targets_Cons:
  "targets p (other # rest) j0 =
     (if state other = ''healthy'' \<and> distance p other \<le> infectionDistance then [j0] else []) @
     targets p rest (Suc j0)"
proof -
  have upt: "[0..<length (other # rest)] = 0 # map Suc [0..<length rest]"
    by (simp add: upt_conv_Cons map_Suc_upt del: upt_Suc)
  show ?thesis
    unfolding targets_def upt
    by (simp add: filter_map o_def)
qed

lemma scanOthers_runTrials:
  "scanOthers rate rnd p others j0 (ne, k) = runTrials rate rnd (targets p others j0) (ne, k)"
  by (induction others arbitrary: j0 ne k) (simp_all add: targets_Nil targets_Cons)

lemma runTrials_append:
  "runTrials rate rnd (js @ js') s = runTrials rate rnd js' (runTrials rate rnd js s)"
  by (induction js arbitrary: s) (auto split: prod.splits)

lemma snd_runTrials: "snd (runTrials rate rnd js (ne, k)) = k + length js"
  by (induction js arbitrary: ne k) auto

lemma set_runTrials:
  "set (fst (runTrials rate rnd js (ne, k))) =
     set ne \<union> {js ! t | t. t < length js \<and> rnd (k + t) < rate}"
proof (induction js arbitrary: ne k)
  case Nil
  then show ?case by simp
next
  case (Cons j js)
  have split: "{(j # js) ! t | t. t < length (j # js) \<and> rnd (k + t) < rate} =
      (if rnd k < rate then {j} else {}) \<union> {js ! t | t. t < length js \<and> rnd (Suc k + t) < rate}"
    (is "?L = ?R")
  proof (intro set_eqI iffI)
    fix v assume "v \<in> ?L"
    then obtain t where t: "v = (j # js) ! t" "t < length (j # js)" "rnd (k + t) < rate"
      by blast
    show "v \<in> ?R"
    proof (cases t)
      case 0
      with t show ?thesis by simp
    next
      case (Suc t')
      with t have "v = js ! t'" "t' < length js" "rnd (Suc k + t') < rate"
        by simp_all
      then show ?thesis by blast
    qed
  next
    fix v assume "v \<in> ?R"
    then consider "rnd k < rate" "v = j"
      | t where "v = js ! t" "t < length js" "rnd (Suc k + t) < rate"
      by (auto split: if_splits)
    then show "v \<in> ?L"
    proof cases
      case 1
      then have "v = (j # js) ! 0" "0 < length (j # js)" "rnd (k + 0) < rate"
        by simp_all
      then show ?thesis by blast
    next
      case 2
      then have "v = (j # js) ! Suc t" "Suc t < length (j # js)" "rnd (k + Suc t) < rate"
        by simp_all
      then show ?thesis by blast
    qed
  qed
  show ?case
    unfolding split by (auto simp: Cons.IH)
qed

lemma distinct_runTrials:
  "distinct ne \<Longrightarrow> distinct (fst (runTrials rate rnd js (ne, k)))"
  by (induction js arbitrary: ne k) auto

text \<open>The scan reads the state and the position only, which the exposure pass leaves alone.\<close>

lemma targets_cong:
  assumes "length others' = length others"
    and "\<And>t. t < length others \<Longrightarrow>
           state (others' ! t) = state (others ! t) \<and> x (others' ! t) = x (others ! t) \<and>
           y (others' ! t) = y (others ! t)"
    and "x p' = x p" and "y p' = y p"
  shows "targets p' others' j0 = targets p others j0"
  unfolding targets_def using assms
  by (auto simp: distance_def intro!: arg_cong[where f = "map _"] filter_cong)

lemma row_contacts:
  "map snd (map (Pair i) (filter (inContact pop i) [0..<length pop])) =
     (if state (pop ! i) = ''infected'' then targets (pop ! i) pop 0 else [])"
  by (auto simp: o_def targets_def inContact_def intro: filter_cong)

lemma map_snd_contacts:
  "map snd (contacts pop) =
     concat (map (\<lambda>i. if state (pop ! i) = ''infected'' then targets (pop ! i) pop 0 else [])
       [0..<length pop])"
  unfolding contacts_def map_concat map_map o_def
  using row_contacts[of _ pop, unfolded map_map o_def]
  by (simp add: o_def)

lemma setQuarantined_geo:
  "state (setQuarantined qa p) = state p" "x (setQuarantined qa p) = x p"
  "y (setQuarantined qa p) = y p"
  by (simp_all add: setQuarantined_def)

lemma exposeStep_eq:
  assumes "length pop' = length pop" and "i < length pop"
    and geo: "\<And>t. t < length pop \<Longrightarrow>
           state (pop' ! t) = state (pop ! t) \<and> x (pop' ! t) = x (pop ! t) \<and>
           y (pop' ! t) = y (pop ! t)"
  shows "exposeStep qa rate rnd i (pop', s) =
     (pop'[i := setQuarantined qa (pop' ! i)],
      runTrials rate rnd (if state (pop ! i) = ''infected'' then targets (pop ! i) pop 0 else []) s)"
proof (cases "state (pop ! i) = ''infected''")
  case False
  with geo[OF assms(2)] show ?thesis
    by (cases s) (simp add: exposeStep_def setQuarantined_def)
next
  case True
  let ?q = "(pop' ! i)\<lparr>quarantined := qa\<rparr>"
  have st: "state (pop' ! i) = ''infected''"
    using True geo[OF assms(2)] by simp
  have "targets (pop'[i := ?q] ! i) (pop'[i := ?q]) 0 = targets (pop ! i) pop 0"
  proof (rule targets_cong)
    show "length (pop'[i := ?q]) = length pop"
      using assms(1) by simp
    show "state (pop'[i := ?q] ! t) = state (pop ! t) \<and> x (pop'[i := ?q] ! t) = x (pop ! t) \<and>
           y (pop'[i := ?q] ! t) = y (pop ! t)" if "t < length pop" for t
      using geo[OF that] that assms(1) by (cases "t = i") simp_all
    show "x (pop'[i := ?q] ! i) = x (pop ! i)" "y (pop'[i := ?q] ! i) = y (pop ! i)"
      using geo[OF assms(2)] assms(1,2) by simp_all
  qed
  then show ?thesis
    using True st
    by (cases s) (simp add: exposeStep_def setQuarantined_def Let_def scanOthers_runTrials
        split: prod.splits)
qed

lemma fold_exposeStep:
  "m \<le> length pop \<Longrightarrow>
   fold (exposeStep qa rate rnd) [0..<m] (pop, ne, k) =
     (map (setQuarantined qa) (take m pop) @ drop m pop,
      runTrials rate rnd
        (concat (map (\<lambda>i. if state (pop ! i) = ''infected'' then targets (pop ! i) pop 0 else [])
           [0..<m])) (ne, k))"
proof (induction m)
  case 0
  then show ?case by simp
next
  case (Suc m)
  let ?pm = "map (setQuarantined qa) (take m pop) @ drop m pop"
  from Suc.prems have m: "m < length pop"
    by simp
  have len: "length ?pm = length pop"
    using m by simp
  have geo: "state (?pm ! t) = state (pop ! t) \<and> x (?pm ! t) = x (pop ! t) \<and> y (?pm ! t) = y (pop ! t)"
    if "t < length pop" for t
    using that by (simp add: nth_append setQuarantined_geo)
  have upd: "?pm[m := setQuarantined qa (?pm ! m)] =
      map (setQuarantined qa) (take (Suc m) pop) @ drop (Suc m) pop"
    using m by (simp add: nth_append list_update_append take_Suc_conv_app_nth
        flip: Cons_nth_drop_Suc)
  show ?case
    using Suc.IH m exposeStep_eq[OF len m geo, of qa rate rnd]
    by (simp add: upd runTrials_append del: list_update.simps)
qed

lemma exposurePass_eq:
  "exposurePass qa rate rnd pop k =
     (map (setQuarantined qa) pop, runTrials rate rnd (map snd (contacts pop)) ([], k))"
  by (simp add: exposurePass_def fold_exposeStep map_snd_contacts)

section \<open>The commit and the state advance, individual by individual\<close>

lemma markExposed_idem: "markExposed (markExposed p) = markExposed p"
  by (simp add: markExposed_def)

lemma length_commitExposures: "length (commitExposures ne pop) = length pop"
  unfolding commitExposures_def by (induction ne arbitrary: pop) auto

lemma nth_commitExposures:
  "i < length pop \<Longrightarrow>
   commitExposures ne pop ! i = (if i \<in> set ne then markExposed (pop ! i) else pop ! i)"
  unfolding commitExposures_def
proof (induction ne arbitrary: pop)
  case Nil
  then show ?case by simp
next
  case (Cons j ne)
  then show ?case
    by (cases "i = j") (auto simp: markExposed_idem)
qed

lemma advancePass_Cons:
  "advancePass ps rnd (p # rest) k =
     (fst (advanceIndividual ps rnd p k) #
        fst (advancePass ps rnd rest (snd (advanceIndividual ps rnd p k))),
      snd (advancePass ps rnd rest (snd (advanceIndividual ps rnd p k))))"
  by (simp split: prod.splits)

lemma length_advancePass: "length (fst (advancePass ps rnd pop k)) = length pop"
  by (induction pop arbitrary: k) (simp_all add: advancePass_Cons del: advancePass.simps(2))

lemma nth_advancePass:
  "i < length pop \<Longrightarrow>
   \<exists>k'. fst (advancePass ps rnd pop k) ! i = fst (advanceIndividual ps rnd (pop ! i) k')"
proof (induction pop arbitrary: k i)
  case Nil
  then show ?case by simp
next
  case (Cons p rest)
  show ?case
  proof (cases i)
    case 0
    then show ?thesis
      by (auto simp: advancePass_Cons simp del: advancePass.simps(2))
  next
    case (Suc i')
    with Cons.prems have "i' < length rest"
      by simp
    from Cons.IH[OF this] Suc show ?thesis
      by (simp add: advancePass_Cons del: advancePass.simps(2))
  qed
qed

text \<open>The draw of a recovered individual is the next one; nobody else draws.\<close>

lemma snd_advanceIndividual:
  "snd (advanceIndividual ps rnd p k) = (if state p = ''recovered'' then Suc k else k)"
  by (simp add: advanceIndividual_def Let_def)

lemma nth_advancePass_exact:
  "i < length pop \<Longrightarrow>
   fst (advancePass ps rnd pop k) ! i =
     fst (advanceIndividual ps rnd (pop ! i) (k + recoveredBefore pop i))"
proof (induction pop arbitrary: k i)
  case Nil
  then show ?case by simp
next
  case (Cons p rest)
  show ?case
  proof (cases i)
    case 0
    then show ?thesis
      by (simp add: advancePass_Cons recoveredBefore_def del: advancePass.simps(2))
  next
    case (Suc i')
    with Cons.prems have "i' < length rest"
      by simp
    from Cons.IH[OF this] Suc show ?thesis
      by (simp add: advancePass_Cons recoveredBefore_def snd_advanceIndividual
          del: advancePass.simps(2))
  qed
qed

section \<open>The round, individual by individual\<close>

lemma pending_eq:
  "pending pop ps rnd k =
     fst (runTrials (effectiveInfectionRate pop ps) rnd (map snd (contacts pop)) ([], k))"
  by (simp add: pending_def exposurePass_eq)

lemma set_pending:
  "set (pending pop ps rnd k) =
     {snd (contacts pop ! t) | t. t < length (contacts pop) \<and> rnd (k + t) < effectiveInfectionRate pop ps}"
proof -
  have "{map snd (contacts pop) ! t | t.
          t < length (map snd (contacts pop)) \<and> rnd (k + t) < effectiveInfectionRate pop ps} =
        {snd (contacts pop ! t) | t.
          t < length (contacts pop) \<and> rnd (k + t) < effectiveInfectionRate pop ps}"
    by (intro Collect_cong ex_cong1) auto
  then show ?thesis
    by (simp add: pending_eq set_runTrials)
qed

lemma distinct_pending: "distinct (pending pop ps rnd k)"
  by (simp add: pending_eq distinct_runTrials)

lemma updatePopulation_eq:
  "updatePopulation pop ps rnd k =
     advancePass ps rnd (afterCommit pop ps rnd k) (k + length (contacts pop))"
proof -
  have "snd (snd (exposurePass (quarantineActive pop ps) (effectiveInfectionRate pop ps) rnd pop k)) =
        k + length (contacts pop)"
    by (simp add: exposurePass_eq snd_runTrials)
  then show ?thesis
    by (cases "exposurePass (quarantineActive pop ps) (effectiveInfectionRate pop ps) rnd pop k")
      (simp add: updatePopulation_def afterCommit_def pending_def Let_def)
qed

lemma length_afterCommit: "length (afterCommit pop ps rnd k) = length pop"
  by (simp add: afterCommit_def length_commitExposures exposurePass_eq)

lemma nth_afterCommit:
  "i < length pop \<Longrightarrow>
   afterCommit pop ps rnd k ! i =
     (if i \<in> set (pending pop ps rnd k)
      then markExposed (setQuarantined (quarantineActive pop ps) (pop ! i))
      else setQuarantined (quarantineActive pop ps) (pop ! i))"
  by (simp add: afterCommit_def nth_commitExposures exposurePass_eq)

lemma length_updatePopulation: "length (fst (updatePopulation pop ps rnd k)) = length pop"
  by (simp add: updatePopulation_eq length_advancePass length_afterCommit)

lemma nth_updatePopulation:
  assumes "i < length pop"
  shows "\<exists>k'. fst (updatePopulation pop ps rnd k) ! i =
     fst (advanceIndividual ps rnd (afterCommit pop ps rnd k ! i) k')"
proof -
  from assms have "i < length (afterCommit pop ps rnd k)"
    by (simp add: length_afterCommit)
  from nth_advancePass[OF this] show ?thesis
    by (simp add: updatePopulation_eq)
qed

lemma nth_updatePopulation_exact:
  assumes "i < length pop"
  shows "fst (updatePopulation pop ps rnd k) ! i =
     fst (advanceIndividual ps rnd (afterCommit pop ps rnd k ! i)
       (k + length (contacts pop) + recoveredBefore (afterCommit pop ps rnd k) i))"
proof -
  from assms have "i < length (afterCommit pop ps rnd k)"
    by (simp add: length_afterCommit)
  from nth_advancePass_exact[OF this] show ?thesis
    by (simp add: updatePopulation_eq)
qed

lemma contacts_sound:
  "(i, j) \<in> set (contacts pop) \<Longrightarrow> i < length pop \<and> j < length pop \<and> inContact pop i j"
  by (auto simp: contacts_def)

lemma pending_healthy:
  assumes "j \<in> set (pending pop ps rnd k)"
  shows "j < length pop \<and> state (pop ! j) = ''healthy''"
proof -
  from assms obtain t where t: "t < length (contacts pop)" "j = snd (contacts pop ! t)"
    unfolding set_pending by blast
  then have "(fst (contacts pop ! t), j) \<in> set (contacts pop)"
    by (metis nth_mem prod.collapse)
  from contacts_sound[OF this] show ?thesis
    by (simp add: inContact_def)
qed

section \<open>Conservation of the population (C1)\<close>

lemma validState_advanceIndividual:
  "validState (state p) \<Longrightarrow> validState (state (fst (advanceIndividual ps rnd p k)))"
  by (auto simp: advanceIndividual_def validState_def Let_def)

lemma validState_afterCommit:
  "i < length pop \<Longrightarrow> validState (state (pop ! i)) \<Longrightarrow>
   validState (state (afterCommit pop ps rnd k ! i))"
  by (auto simp: nth_afterCommit markExposed_def setQuarantined_def validState_def)

lemma statesValid_updatePopulation:
  assumes "statesValid pop"
  shows "statesValid (fst (updatePopulation pop ps rnd k))"
  unfolding statesValid_def list_all_length
proof (intro allI impI)
  fix i
  assume "i < length (fst (updatePopulation pop ps rnd k))"
  then have i: "i < length pop"
    by (simp add: length_updatePopulation)
  with assms have "validState (state (pop ! i))"
    by (simp add: statesValid_def list_all_length)
  then have "validState (state (afterCommit pop ps rnd k ! i))"
    using i by (rule validState_afterCommit[rotated])
  with nth_updatePopulation[OF i, of ps rnd k]
  show "validState (state (fst (updatePopulation pop ps rnd k) ! i))"
    by (auto simp: validState_advanceIndividual)
qed

lemma statesValid_created:
  assumes "createPopulation sz r = Inr pop"
  shows "statesValid pop"
proof -
  let ?base = "map (newIndividual (sqrt sz)) [0..<nat \<lceil>sz\<rceil>]"
  from assms obtain idx where
    pop: "pop = ?base[idx := (?base ! idx)\<lparr>state := ''infected'', daysInfected := 0\<rparr>]"
    by (auto simp: createPopulation_def Let_def split: if_splits)
  show ?thesis
    unfolding statesValid_def list_all_length
  proof (intro allI impI)
    fix i assume "i < length pop"
    then have "i < nat \<lceil>sz\<rceil>"
      by (simp add: pop)
    then show "validState (state (pop ! i))"
      by (cases "i = idx") (simp_all add: pop validState_def newIndividual_def)
  qed
qed

text \<open>Every population the driver can observe has its states among the four.\<close>

lemma reachable_statesValid: "reachable pop \<Longrightarrow> statesValid pop"
  by (induction rule: reachable.induct)
    (simp_all add: statesValid_created statesValid_updatePopulation)

lemma total_computeStatistics:
  "statesValid pop \<Longrightarrow> total (computeStatistics pop r) = length pop"
  by (induction pop) (auto simp: statesValid_def validState_def total_def computeStatistics_def)

text \<open>
  C1. For a population whose individuals are each in one of the four states, the four
  counts of \<^verbatim>\<open>computeStatistics\<close> add up to the size of the population;
  \<^verbatim>\<open>updatePopulation\<close> keeps every individual in one of the four states, so the counts
  of the updated population add up to the same size.
\<close>

theorem conservation:
  assumes "statesValid pop"
  shows "total (computeStatistics pop r) = length pop \<and>
         statesValid (fst (updatePopulation pop ps rnd k)) \<and>
         total (computeStatistics (fst (updatePopulation pop ps rnd k)) r') = length pop"
  using assms statesValid_updatePopulation[OF assms, of ps rnd k]
  by (simp add: total_computeStatistics length_updatePopulation)

text \<open>The two neighbours, before and after a round with the default parameters.\<close>

theorem conservation_witness:
  "statesValid neighbours \<and>
   total (computeStatistics neighbours 0) = length neighbours \<and>
   statesValid (fst (updatePopulation neighbours defaultSimulationParameters zeroRand 0)) \<and>
   total (computeStatistics (fst (updatePopulation neighbours defaultSimulationParameters zeroRand 0)) 1) = 2"
proof -
  have v: "statesValid neighbours"
    by (simp add: statesValid_def validState_def neighbours_def mkIndividual_def)
  have "length neighbours = 2"
    by (simp add: neighbours_def)
  with v conservation[OF v, of 0 defaultSimulationParameters zeroRand 0 1] show ?thesis
    by simp
qed

section \<open>The empty population (C8)\<close>

text \<open>
  C8. On the empty population \<^verbatim>\<open>updatePopulation\<close> returns the empty population and
  draws no random number, for every parameter set; the infected fraction is the value
  \<^verbatim>\<open>NaN\<close> of the division \<^verbatim>\<open>0 / 0\<close>, not a failure, and quarantine is inactive.
\<close>

theorem updatePopulation_empty:
  "updatePopulation [] ps rnd k = ([], k) \<and> fractionInfected [] = NaN \<and> \<not> quarantineActive [] ps"
  by (simp add: updatePopulation_def exposurePass_def commitExposures_def quarantineActive_def
      fractionInfected_def infectedCount_def jsdiv_def)

section \<open>Length, order and identity of the individuals (C9)\<close>

lemma frame_advanceIndividual:
  "ident (fst (advanceIndividual ps rnd p k)) = ident p"
  "x (fst (advanceIndividual ps rnd p k)) = x p"
  "y (fst (advanceIndividual ps rnd p k)) = y p"
  by (simp_all add: advanceIndividual_def Let_def)

lemma frame_afterCommit:
  assumes "i < length pop"
  shows "ident (afterCommit pop ps rnd k ! i) = ident (pop ! i)"
    and "x (afterCommit pop ps rnd k ! i) = x (pop ! i)"
    and "y (afterCommit pop ps rnd k ! i) = y (pop ! i)"
  using assms by (simp_all add: nth_afterCommit markExposed_def setQuarantined_def)

lemma frame_updatePopulation:
  assumes "i < length pop"
  shows "ident (fst (updatePopulation pop ps rnd k) ! i) = ident (pop ! i)"
    and "x (fst (updatePopulation pop ps rnd k) ! i) = x (pop ! i)"
    and "y (fst (updatePopulation pop ps rnd k) ! i) = y (pop ! i)"
  using nth_updatePopulation[OF assms, of ps rnd k] frame_afterCommit[OF assms, of ps rnd k]
  by (auto simp: frame_advanceIndividual)

text \<open>
  C9. \<^verbatim>\<open>updatePopulation\<close> returns a population of the same length in which the
  individual at every position has the \<^verbatim>\<open>id\<close>, the \<^verbatim>\<open>x\<close> and the \<^verbatim>\<open>y\<close> of the
  individual at that position before: nobody is moved, added or removed, and the three
  fields are never written.
\<close>

theorem updatePopulation_frame:
  "length (fst (updatePopulation pop ps rnd k)) = length pop \<and>
   map ident (fst (updatePopulation pop ps rnd k)) = map ident pop \<and>
   map x (fst (updatePopulation pop ps rnd k)) = map x pop \<and>
   map y (fst (updatePopulation pop ps rnd k)) = map y pop"
  by (simp add: list_eq_iff_nth_eq length_updatePopulation frame_updatePopulation)

section \<open>Quarantine (C2)\<close>

lemma quarantineActive_iff:
  "pop \<noteq> [] \<Longrightarrow>
   quarantineActive pop ps \<longleftrightarrow>
     quarantineThreshold ps \<le>
       real (length (filter (\<lambda>p. state p = ''infected'') pop)) / real (length pop)"
  by (simp add: quarantineActive_def fractionInfected_def infectedCount_def jsdiv_def)

lemma advance_infected_quarantined:
  "state p = ''infected'' \<Longrightarrow> state (fst (advanceIndividual ps rnd p k')) = ''infected'' \<Longrightarrow>
   quarantined (fst (advanceIndividual ps rnd p k')) = quarantined p"
  by (simp add: advanceIndividual_def Let_def split: if_splits)

lemma afterCommit_infected:
  assumes "i < length pop" "state (pop ! i) = ''infected''"
  shows "afterCommit pop ps rnd k ! i = (pop ! i)\<lparr>quarantined := quarantineActive pop ps\<rparr>"
proof -
  from assms have "i \<notin> set (pending pop ps rnd k)"
    using pending_healthy[of i pop ps rnd k] by auto
  with assms show ?thesis
    by (simp add: nth_afterCommit setQuarantined_def)
qed

text \<open>
  C2. For a non-empty population, quarantine is active in a round exactly when the number
  of infected individuals of the population passed in, divided by its size, is at least
  \<^verbatim>\<open>quarantineThreshold\<close>. The round is the state advance of the population after the
  commit, and it has drawn one number per contact. The pending exposures are the targets
  of the contacts whose draw is below \<^verbatim>\<open>infectionRate * quarantineReductionFactor\<close>
  when quarantine is active and below \<^verbatim>\<open>infectionRate\<close> when it is not. Every
  individual that is infected during the exposure pass has its \<^verbatim>\<open>quarantined\<close> flag set
  to the quarantine condition by that pass, and still has it on return if it is still
  infected.
\<close>

theorem quarantine_round:
  assumes "pop \<noteq> []"
  shows "(quarantineActive pop ps \<longleftrightarrow>
            quarantineThreshold ps \<le>
              real (length (filter (\<lambda>p. state p = ''infected'') pop)) / real (length pop)) \<and>
         updatePopulation pop ps rnd k =
            advancePass ps rnd (afterCommit pop ps rnd k) (k + length (contacts pop)) \<and>
         set (pending pop ps rnd k) =
            {snd (contacts pop ! t) | t. t < length (contacts pop) \<and>
               rnd (k + t) < (if quarantineActive pop ps
                              then infectionRate ps * quarantineReductionFactor ps
                              else infectionRate ps)} \<and>
         (\<forall>i < length pop. state (pop ! i) = ''infected'' \<longrightarrow>
            quarantined (fst (exposurePass (quarantineActive pop ps) (effectiveInfectionRate pop ps)
                                rnd pop k) ! i) = quarantineActive pop ps) \<and>
         (\<forall>i < length pop. state (pop ! i) = ''infected'' \<longrightarrow>
            state (fst (updatePopulation pop ps rnd k) ! i) = ''infected'' \<longrightarrow>
            quarantined (fst (updatePopulation pop ps rnd k) ! i) = quarantineActive pop ps)"
proof (intro conjI allI impI)
  show "quarantineActive pop ps \<longleftrightarrow>
          quarantineThreshold ps \<le>
            real (length (filter (\<lambda>p. state p = ''infected'') pop)) / real (length pop)"
    using assms by (rule quarantineActive_iff)
  show "updatePopulation pop ps rnd k =
          advancePass ps rnd (afterCommit pop ps rnd k) (k + length (contacts pop))"
    by (rule updatePopulation_eq)
  have "effectiveInfectionRate pop ps =
          (if quarantineActive pop ps then infectionRate ps * quarantineReductionFactor ps
           else infectionRate ps)"
    by (simp add: effectiveInfectionRate_def quarantineActive_def)
  then show "set (pending pop ps rnd k) =
      {snd (contacts pop ! t) | t. t < length (contacts pop) \<and>
         rnd (k + t) < (if quarantineActive pop ps
                        then infectionRate ps * quarantineReductionFactor ps
                        else infectionRate ps)}"
    using set_pending[of pop ps rnd k] by simp
next
  fix i assume "i < length pop" "state (pop ! i) = ''infected''"
  then show "quarantined (fst (exposurePass (quarantineActive pop ps) (effectiveInfectionRate pop ps)
                                rnd pop k) ! i) = quarantineActive pop ps"
    by (simp add: exposurePass_eq setQuarantined_def)
next
  fix i assume i: "i < length pop" and inf: "state (pop ! i) = ''infected''"
    and still: "state (fst (updatePopulation pop ps rnd k) ! i) = ''infected''"
  from nth_updatePopulation[OF i, of ps rnd k] obtain k' where
    k': "fst (updatePopulation pop ps rnd k) ! i =
           fst (advanceIndividual ps rnd (afterCommit pop ps rnd k ! i) k')" ..
  let ?q = "(pop ! i)\<lparr>quarantined := quarantineActive pop ps\<rparr>"
  have q: "afterCommit pop ps rnd k ! i = ?q"
    using i inf by (rule afterCommit_infected)
  have "quarantined (fst (advanceIndividual ps rnd ?q k')) = quarantined ?q"
    using still inf unfolding k' q by (intro advance_infected_quarantined) simp_all
  then show "quarantined (fst (updatePopulation pop ps rnd k) ! i) = quarantineActive pop ps"
    by (simp add: k' q)
qed

text \<open>
  One infected among two, every draw one fifth. With the default parameters the fraction
  one half is above the threshold of 10 percent: quarantine is active, the infected
  individual is quarantined on return, and the trial of the one contact fails (the rate
  is \<open>0.3 * 0.3\<close>). With a threshold of 60 percent quarantine is inactive, the infected
  individual is not quarantined, and the trial succeeds (the rate is \<open>0.3\<close>).
\<close>

theorem quarantine_round_witness:
  "neighbours \<noteq> [] \<and>
   quarantineActive neighbours defaultSimulationParameters \<and>
   set (pending neighbours defaultSimulationParameters (constRand (1 / 5)) 0) = {} \<and>
   quarantined (fst (updatePopulation neighbours defaultSimulationParameters (constRand (1 / 5)) 0) ! 0) \<and>
   \<not> quarantineActive neighbours highThreshold \<and>
   set (pending neighbours highThreshold (constRand (1 / 5)) 0) = {1} \<and>
   \<not> quarantined (fst (updatePopulation neighbours highThreshold (constRand (1 / 5)) 0) ! 0)"
proof -
  have ne: "neighbours \<noteq> []"
    by (simp add: neighbours_def)
  note a = quarantine_round[OF ne, of defaultSimulationParameters "constRand (1 / 5)" 0]
  note b = quarantine_round[OF ne, of highThreshold "constRand (1 / 5)" 0]
  have cnt: "real (length (filter (\<lambda>p. state p = ''infected'') neighbours)) / real (length neighbours)
      = 1 / 2"
    by (simp add: neighbours_def mkIndividual_def)
  have qa: "quarantineActive neighbours defaultSimulationParameters"
    using a cnt by (simp add: defaultSimulationParameters_def)
  have nqa: "\<not> quarantineActive neighbours highThreshold"
    using b cnt by (simp add: highThreshold_def defaultSimulationParameters_def)
  have cs: "contacts neighbours = [(0, 1)]"
    by (simp add: contacts_def inContact_def distance_le neighbours_def mkIndividual_def)
  have pa: "set (pending neighbours defaultSimulationParameters (constRand (1 / 5)) 0) = {}"
    using a qa by (simp add: cs constRand_def defaultSimulationParameters_def)
  have pb: "set (pending neighbours highThreshold (constRand (1 / 5)) 0) = {1}"
    using b nqa by (simp add: cs constRand_def highThreshold_def defaultSimulationParameters_def)
  have i: "(0::nat) < length neighbours" and s: "state (neighbours ! 0) = ''infected''"
    by (simp_all add: neighbours_def mkIndividual_def)
  have sa: "state (fst (updatePopulation neighbours defaultSimulationParameters (constRand (1 / 5)) 0) ! 0)
      = ''infected''"
    by (simp add: constRand_def eval_defs)
  have sb: "state (fst (updatePopulation neighbours highThreshold (constRand (1 / 5)) 0) ! 0)
      = ''infected''"
    by (simp add: constRand_def highThreshold_def eval_defs)
  from a i s sa qa
  have ua: "quarantined (fst (updatePopulation neighbours defaultSimulationParameters (constRand (1 / 5)) 0) ! 0)"
    by blast
  from b i s sb nqa
  have ub: "\<not> quarantined (fst (updatePopulation neighbours highThreshold (constRand (1 / 5)) 0) ! 0)"
    by blast
  from ne qa pa ua nqa pb ub show ?thesis
    by blast
qed

section \<open>The display flags (C3)\<close>

text \<open>
  The state advance never sets \<^verbatim>\<open>newlyExposed\<close> and clears it for every exposed
  individual, those of the commit of the same call included: the flag is not set on
  return unless it was set on entry.
\<close>

lemma newlyExposed_on_return:
  assumes "i < length pop" and "\<not> newlyExposed (pop ! i)"
  shows "\<not> newlyExposed (fst (updatePopulation pop ps rnd k) ! i)"
proof -
  let ?c = "afterCommit pop ps rnd k ! i"
  have c: "state ?c = ''exposed'' \<or> \<not> newlyExposed ?c"
    using assms by (simp add: nth_afterCommit markExposed_def setQuarantined_def)
  from nth_updatePopulation[OF assms(1), of ps rnd k] obtain k' where
    "fst (updatePopulation pop ps rnd k) ! i = fst (advanceIndividual ps rnd ?c k')" ..
  with c show ?thesis
    by (auto simp: advanceIndividual_def Let_def)
qed

text \<open>
  C3. The healthy neighbour of an infected individual is exposed in the round (default
  parameters, every draw 0): it is in the pending exposures, the commit sets its
  \<^verbatim>\<open>newlyExposed\<close> flag, and the state advance of the same call finds it exposed and
  clears the flag. On return from the round of its exposure its \<^verbatim>\<open>newlyExposed\<close> flag is
  false.
\<close>

theorem newlyExposed_cleared_same_round:
  "state (neighbours ! 1) = ''healthy'' \<and>
   pending neighbours defaultSimulationParameters zeroRand 0 = [1] \<and>
   newlyExposed (afterCommit neighbours defaultSimulationParameters zeroRand 0 ! 1) \<and>
   state (fst (updatePopulation neighbours defaultSimulationParameters zeroRand 0) ! 1) = ''exposed'' \<and>
   \<not> newlyExposed (fst (updatePopulation neighbours defaultSimulationParameters zeroRand 0) ! 1)"
  by (simp add: eval_defs pending_def afterCommit_def)

section \<open>The day counters (C4)\<close>

lemma countersCreated_created:
  assumes "createPopulation sz r = Inr pop"
  shows "list_all countersCreated pop"
proof -
  let ?base = "map (newIndividual (sqrt sz)) [0..<nat \<lceil>sz\<rceil>]"
  from assms obtain idx where
    pop: "pop = ?base[idx := (?base ! idx)\<lparr>state := ''infected'', daysInfected := 0\<rparr>]"
    by (auto simp: createPopulation_def Let_def split: if_splits)
  show ?thesis
    unfolding list_all_length
  proof (intro allI impI)
    fix i assume "i < length pop"
    then have "i < nat \<lceil>sz\<rceil>"
      by (simp add: pop)
    then show "countersCreated (pop ! i)"
      by (cases "i = idx") (simp_all add: pop countersCreated_def newIndividual_def)
  qed
qed

lemma countersCreated_inv: "countersCreated p \<Longrightarrow> countersInv p"
  by (simp add: countersCreated_def countersInv_def)

text \<open>
  The state advance of an individual whose counters are as the commit leaves them: a
  fresh exposure has \<open>daysExposed\<close> 0.
\<close>

lemma counters_advanceIndividual:
  assumes "if state q = ''exposed'' then 0 \<le> daysExposed q else daysExposed q = 0"
    and "if state q = ''infected'' then 0 \<le> daysInfected q else daysInfected q = 0"
  shows "countersInv (fst (advanceIndividual ps rnd q k)) \<and>
         countersAfterRound q (fst (advanceIndividual ps rnd q k))"
  using assms
  by (auto simp: countersInv_def countersAfterRound_def advanceIndividual_def Let_def
      split: if_splits)

lemma counters_round:
  assumes "i < length pop" and inv: "countersInv (pop ! i)"
  shows "countersInv (fst (updatePopulation pop ps rnd k) ! i) \<and>
         countersAfterRound (pop ! i) (fst (updatePopulation pop ps rnd k) ! i)"
proof -
  let ?c = "afterCommit pop ps rnd k ! i"
  have c: "(if state ?c = ''exposed'' then 0 \<le> daysExposed ?c else daysExposed ?c = 0) \<and>
           (if state ?c = ''infected'' then 0 \<le> daysInfected ?c else daysInfected ?c = 0) \<and>
           (state ?c = ''infected'' \<longleftrightarrow> state (pop ! i) = ''infected'')"
  proof (cases "i \<in> set (pending pop ps rnd k)")
    case True
    from pending_healthy[OF this] inv
    have "state (pop ! i) = ''healthy''" "daysInfected (pop ! i) = 0"
      by (simp_all add: countersInv_def)
    with True assms(1) show ?thesis
      by (simp add: nth_afterCommit markExposed_def setQuarantined_def)
  next
    case False
    with assms show ?thesis
      by (auto simp: nth_afterCommit setQuarantined_def countersInv_def split: if_splits)
  qed
  from nth_updatePopulation[OF assms(1), of ps rnd k] obtain k' where
    k': "fst (updatePopulation pop ps rnd k) ! i = fst (advanceIndividual ps rnd ?c k')" ..
  from c counters_advanceIndividual[of ?c ps rnd k']
  have "countersInv (fst (advanceIndividual ps rnd ?c k')) \<and>
        countersAfterRound ?c (fst (advanceIndividual ps rnd ?c k'))"
    by simp
  with c show ?thesis
    by (simp add: k' countersAfterRound_def)
qed

lemma countersInv_updatePopulation:
  assumes "list_all countersInv pop"
  shows "list_all countersInv (fst (updatePopulation pop ps rnd k))"
  using assms counters_round[of _ pop ps rnd k]
  by (simp add: list_all_length length_updatePopulation)

lemma countersAfterRound_updatePopulation:
  assumes "list_all countersInv pop"
  shows "list_all2 countersAfterRound pop (fst (updatePopulation pop ps rnd k))"
  using assms counters_round[of _ pop ps rnd k]
  by (simp add: list_all2_conv_all_nth list_all_length length_updatePopulation)

lemma countersInv_reachable: "reachable pop \<Longrightarrow> list_all countersInv pop"
proof (induction rule: reachable.induct)
  case (created sz r pop)
  from countersCreated_created[OF this] show ?case
    by (simp add: list_all_iff countersCreated_inv)
next
  case (updated pop ps rnd k)
  then show ?case
    by (simp add: countersInv_updatePopulation)
qed

lemma createPopulation_4: "createPopulation 4 0 = Inr grid4"
  by (simp add: createPopulation_def newIndividual_def fmod_def grid4_def mkIndividual_def Let_def
      upt_conv_Cons)

text \<open>
  C4, as the code has it. Right after \<^verbatim>\<open>createPopulation\<close> nobody is exposed and both
  counters of every individual are zero, patient zero included. At every observable point
  (the result of \<^verbatim>\<open>createPopulation\<close> and of every later \<^verbatim>\<open>updatePopulation\<close>)
  \<^verbatim>\<open>daysExposed\<close> is positive for an exposed individual and zero for any other, and
  \<^verbatim>\<open>daysInfected\<close> is zero for an individual that is not infected and not negative for
  an infected one. On return from a round on such a population, in particular on any
  observable one, \<^verbatim>\<open>daysExposed\<close> is zero
  exactly when the state is not \<^verbatim>\<open>"exposed"\<close>, and \<^verbatim>\<open>daysInfected\<close> is zero exactly
  when the state is not \<^verbatim>\<open>"infected"\<close> or the individual has become infected in that
  round.
\<close>

theorem counters_at_observable_points:
  "(createPopulation sz r = Inr pop0 \<longrightarrow> list_all countersCreated pop0) \<and>
   (reachable pop \<longrightarrow> list_all countersInv pop) \<and>
   (list_all countersInv pop \<longrightarrow>
      list_all2 countersAfterRound pop (fst (updatePopulation pop ps rnd k))) \<and>
   (reachable pop \<longrightarrow>
      list_all2 countersAfterRound pop (fst (updatePopulation pop ps rnd k)))"
proof (intro conjI impI)
  assume "createPopulation sz r = Inr pop0"
  then show "list_all countersCreated pop0"
    by (rule countersCreated_created)
next
  assume "reachable pop"
  then show "list_all countersInv pop"
    by (rule countersInv_reachable)
next
  assume "list_all countersInv pop"
  then show "list_all2 countersAfterRound pop (fst (updatePopulation pop ps rnd k))"
    by (rule countersAfterRound_updatePopulation)
next
  assume "reachable pop"
  then have "list_all countersInv pop"
    by (rule countersInv_reachable)
  then show "list_all2 countersAfterRound pop (fst (updatePopulation pop ps rnd k))"
    by (rule countersAfterRound_updatePopulation)
qed

text \<open>
  The 2 by 2 grid that \<^verbatim>\<open>createPopulation(4)\<close> returns when the draw is 0, and a round
  with the default parameters in which the first individual becomes infected
  (\<^verbatim>\<open>daysInfected\<close> 0) and the second one stays infected (\<^verbatim>\<open>daysInfected\<close> 1).
\<close>

theorem counters_at_observable_points_witness:
  "createPopulation 4 0 = Inr grid4 \<and> list_all countersCreated grid4 \<and>
   reachable grid4 \<and> list_all countersInv grid4 \<and>
   list_all2 countersAfterRound grid4
     (fst (updatePopulation grid4 defaultSimulationParameters zeroRand 0)) \<and>
   list_all countersInv midIncubation \<and>
   list_all2 countersAfterRound midIncubation
     (fst (updatePopulation midIncubation defaultSimulationParameters zeroRand 0)) \<and>
   map state (fst (updatePopulation midIncubation defaultSimulationParameters zeroRand 0)) =
     [''infected'', ''infected'', ''healthy''] \<and>
   map daysInfected (fst (updatePopulation midIncubation defaultSimulationParameters zeroRand 0)) =
     [0, 1, 0]"
proof -
  have r: "reachable grid4"
    using createPopulation_4 by (rule reachable.created)
  have i: "list_all countersInv midIncubation"
    by (simp add: midIncubation_def mkIndividual_def countersInv_def)
  have v: "map state (fst (updatePopulation midIncubation defaultSimulationParameters zeroRand 0)) =
             [''infected'', ''infected'', ''healthy''] \<and>
           map daysInfected (fst (updatePopulation midIncubation defaultSimulationParameters zeroRand 0)) =
             [0, 1, 0]"
    by (simp add: midIncubation_def eval_defs)
  from createPopulation_4 r i v
    counters_at_observable_points[of 4 0 grid4 grid4 defaultSimulationParameters zeroRand 0]
    counters_at_observable_points[of 4 0 grid4 midIncubation defaultSimulationParameters zeroRand 0]
  show ?thesis
    by blast
qed

text \<open>
  C4 as stated fails right after \<^verbatim>\<open>createPopulation(1)\<close>: patient zero is infected and
  its \<^verbatim>\<open>daysInfected\<close> is 0.
\<close>

theorem patient_zero_counterexample:
  "createPopulation 1 0 = Inr [patientZeroAlone] \<and> \<not> countersExact patientZeroAlone"
  by (simp add: createPopulation_def newIndividual_def fmod_def patientZeroAlone_def
      mkIndividual_def countersExact_def Let_def)

section \<open>No validation of the size and of the parameters (C5)\<close>

lemma createPopulation_positive:
  assumes "0 < sz" and "0 \<le> r" and "r < 1"
  shows "\<exists>pop'. createPopulation sz r = Inr pop' \<and> length pop' = nat \<lceil>sz\<rceil>"
proof -
  from assms have "r * sz < sz"
    by simp
  also have "sz \<le> of_int \<lceil>sz\<rceil>"
    by (rule le_of_int_ceiling)
  finally have "\<lfloor>r * sz\<rfloor> < \<lceil>sz\<rceil>"
    by (simp add: floor_less_iff)
  moreover from assms have "0 \<le> \<lfloor>r * sz\<rfloor>"
    by simp
  ultimately show ?thesis
    using assms(1) by (simp add: createPopulation_def Let_def)
qed

lemma advance_exposed:
  "state q = ''exposed'' \<Longrightarrow>
   state (fst (advanceIndividual ps rnd q k')) = ''infected'' \<longleftrightarrow>
     incubationTime ps \<le> daysExposed q + 1"
  by (simp add: advanceIndividual_def Let_def)

lemma advance_infected:
  "state q = ''infected'' \<Longrightarrow>
   state (fst (advanceIndividual ps rnd q k')) = ''recovered'' \<longleftrightarrow>
     recoveryTime ps \<le> daysInfected q + 1"
  by (simp add: advanceIndividual_def Let_def)

lemma advance_recovered:
  "state q = ''recovered'' \<Longrightarrow>
   state (fst (advanceIndividual ps rnd q k')) = ''healthy'' \<longleftrightarrow>
     rnd k' < reinfectionProbability ps"
  by (simp add: advanceIndividual_def Let_def)

text \<open>
  C5, as the code has it. \<^verbatim>\<open>createPopulation\<close> does not check the size: for every
  positive size, an integer or not, a perfect square or not, and every draw in \<open>[0, 1)\<close>
  it returns a population of \<open>\<lceil>size\<rceil>\<close> individuals. \<^verbatim>\<open>updatePopulation\<close> does not check
  the parameters: for every parameter set it returns a population of the length of the
  one passed in, and it runs the round with the values as they are given. The infected
  fraction is compared with \<^verbatim>\<open>quarantineThreshold\<close>, the draw of every contact with
  \<^verbatim>\<open>infectionRate * quarantineReductionFactor\<close> or \<^verbatim>\<open>infectionRate\<close>, the incremented
  counter of every exposed individual with \<^verbatim>\<open>incubationTime\<close>, that of every infected
  individual with \<^verbatim>\<open>recoveryTime\<close>, and the draw of every recovered individual with
  \<^verbatim>\<open>reinfectionProbability\<close>, whatever these values are.
\<close>

theorem no_validation:
  "(0 < sz \<and> 0 \<le> r \<and> r < 1 \<longrightarrow>
      (\<exists>pop'. createPopulation sz r = Inr pop' \<and> length pop' = nat \<lceil>sz\<rceil>)) \<and>
   length (fst (updatePopulation pop ps rnd k)) = length pop \<and>
   (pop \<noteq> [] \<longrightarrow>
      (quarantineActive pop ps \<longleftrightarrow>
         quarantineThreshold ps \<le>
           real (length (filter (\<lambda>p. state p = ''infected'') pop)) / real (length pop))) \<and>
   set (pending pop ps rnd k) =
      {snd (contacts pop ! t) | t. t < length (contacts pop) \<and>
         rnd (k + t) < (if quarantineActive pop ps
                        then infectionRate ps * quarantineReductionFactor ps
                        else infectionRate ps)} \<and>
   (\<forall>i < length pop. state (afterCommit pop ps rnd k ! i) = ''exposed'' \<longrightarrow>
      (state (fst (updatePopulation pop ps rnd k) ! i) = ''infected'' \<longleftrightarrow>
         incubationTime ps \<le> daysExposed (afterCommit pop ps rnd k ! i) + 1)) \<and>
   (\<forall>i < length pop. state (afterCommit pop ps rnd k ! i) = ''infected'' \<longrightarrow>
      (state (fst (updatePopulation pop ps rnd k) ! i) = ''recovered'' \<longleftrightarrow>
         recoveryTime ps \<le> daysInfected (afterCommit pop ps rnd k ! i) + 1)) \<and>
   (\<forall>i < length pop. state (afterCommit pop ps rnd k ! i) = ''recovered'' \<longrightarrow>
      (state (fst (updatePopulation pop ps rnd k) ! i) = ''healthy'' \<longleftrightarrow>
         rnd (k + length (contacts pop) + recoveredBefore (afterCommit pop ps rnd k) i)
           < reinfectionProbability ps))"
proof (intro conjI allI impI)
  assume "0 < sz \<and> 0 \<le> r \<and> r < 1"
  then show "\<exists>pop'. createPopulation sz r = Inr pop' \<and> length pop' = nat \<lceil>sz\<rceil>"
    by (simp add: createPopulation_positive)
next
  show "length (fst (updatePopulation pop ps rnd k)) = length pop"
    by (rule length_updatePopulation)
next
  assume "pop \<noteq> []"
  then show "quarantineActive pop ps \<longleftrightarrow>
      quarantineThreshold ps \<le>
        real (length (filter (\<lambda>p. state p = ''infected'') pop)) / real (length pop)"
    by (simp add: quarantineActive_def fractionInfected_def infectedCount_def jsdiv_def)
next
  have "effectiveInfectionRate pop ps =
          (if quarantineActive pop ps then infectionRate ps * quarantineReductionFactor ps
           else infectionRate ps)"
    by (simp add: effectiveInfectionRate_def quarantineActive_def)
  then show "set (pending pop ps rnd k) =
      {snd (contacts pop ! t) | t. t < length (contacts pop) \<and>
         rnd (k + t) < (if quarantineActive pop ps
                        then infectionRate ps * quarantineReductionFactor ps
                        else infectionRate ps)}"
    using set_pending[of pop ps rnd k] by simp
next
  fix i assume "i < length pop" "state (afterCommit pop ps rnd k ! i) = ''exposed''"
  then show "state (fst (updatePopulation pop ps rnd k) ! i) = ''infected'' \<longleftrightarrow>
      incubationTime ps \<le> daysExposed (afterCommit pop ps rnd k ! i) + 1"
    by (simp add: nth_updatePopulation_exact advance_exposed)
next
  fix i assume "i < length pop" "state (afterCommit pop ps rnd k ! i) = ''infected''"
  then show "state (fst (updatePopulation pop ps rnd k) ! i) = ''recovered'' \<longleftrightarrow>
      recoveryTime ps \<le> daysInfected (afterCommit pop ps rnd k ! i) + 1"
    by (simp add: nth_updatePopulation_exact advance_infected)
next
  fix i assume "i < length pop" "state (afterCommit pop ps rnd k ! i) = ''recovered''"
  then show "state (fst (updatePopulation pop ps rnd k) ! i) = ''healthy'' \<longleftrightarrow>
      rnd (k + length (contacts pop) + recoveredBefore (afterCommit pop ps rnd k) i)
        < reinfectionProbability ps"
    by (simp add: nth_updatePopulation_exact advance_recovered)
qed

text \<open>
  A size of ten and a half, and a round with every parameter but one out of range and
  every draw one half: quarantine is active (the threshold is negative), the trial of the
  one contact succeeds (the rate is \<open>5 * 0.3\<close>), the fresh exposure becomes infected at
  once, the infected individual recovers at once and the recovered one loses its
  immunity.
\<close>

theorem no_validation_witness:
  "(0::real) < 21 / 2 \<and> (0::real) \<le> 0 \<and> (0::real) < 1 \<and>
   (\<exists>pop'. createPopulation (21 / 2) 0 = Inr pop' \<and> length pop' = 11) \<and>
   mixed \<noteq> [] \<and> quarantineActive mixed outOfRange \<and>
   state (afterCommit mixed outOfRange (constRand (1 / 2)) 0 ! 1) = ''exposed'' \<and>
   state (fst (updatePopulation mixed outOfRange (constRand (1 / 2)) 0) ! 1) = ''infected'' \<and>
   state (afterCommit mixed outOfRange (constRand (1 / 2)) 0 ! 0) = ''infected'' \<and>
   state (fst (updatePopulation mixed outOfRange (constRand (1 / 2)) 0) ! 0) = ''recovered'' \<and>
   state (afterCommit mixed outOfRange (constRand (1 / 2)) 0 ! 2) = ''recovered'' \<and>
   state (fst (updatePopulation mixed outOfRange (constRand (1 / 2)) 0) ! 2) = ''healthy''"
proof -
  note th = no_validation[of "21 / 2" 0 mixed outOfRange "constRand (1 / 2)" 0]
  have sz: "(0::real) < 21 / 2 \<and> (0::real) \<le> 0 \<and> (0::real) < 1"
    by simp
  with th have a: "\<exists>pop'. createPopulation (21 / 2) 0 = Inr pop' \<and> length pop' = nat \<lceil>21 / 2 :: real\<rceil>"
    by blast
  have ne: "mixed \<noteq> []"
    by (simp add: mixed_def)
  have "quarantineThreshold outOfRange \<le>
      real (length (filter (\<lambda>p. state p = ''infected'') mixed)) / real (length mixed)"
    by (simp add: outOfRange_def mixed_def mkIndividual_def)
  with th ne have qa: "quarantineActive mixed outOfRange"
    by blast
  have len: "(0::nat) < length mixed" "(1::nat) < length mixed" "(2::nat) < length mixed"
    by (simp_all add: mixed_def)
  have c: "afterCommit mixed outOfRange (constRand (1 / 2)) 0 =
      [(mkIndividual 0 0 0 ''infected'')\<lparr>quarantined := True\<rparr>,
       (mkIndividual 1 5 0 ''exposed'')\<lparr>newlyExposed := True\<rparr>,
       mkIndividual 2 50 50 ''recovered'']"
    by (simp add: afterCommit_def pending_def mixed_def outOfRange_def constRand_def eval_defs)
  have c0: "state (afterCommit mixed outOfRange (constRand (1 / 2)) 0 ! 0) = ''infected''"
    and c1: "state (afterCommit mixed outOfRange (constRand (1 / 2)) 0 ! 1) = ''exposed''"
    and c2: "state (afterCommit mixed outOfRange (constRand (1 / 2)) 0 ! 2) = ''recovered''"
    by (simp_all add: c mkIndividual_def)
  have t1: "incubationTime outOfRange \<le>
      daysExposed (afterCommit mixed outOfRange (constRand (1 / 2)) 0 ! 1) + 1"
    and t0: "recoveryTime outOfRange \<le>
      daysInfected (afterCommit mixed outOfRange (constRand (1 / 2)) 0 ! 0) + 1"
    and t2: "constRand (1 / 2) (0 + length (contacts mixed) +
        recoveredBefore (afterCommit mixed outOfRange (constRand (1 / 2)) 0) 2)
      < reinfectionProbability outOfRange"
    unfolding c by (simp_all add: mkIndividual_def outOfRange_def constRand_def)
  from th len c1 t1
  have r1: "state (fst (updatePopulation mixed outOfRange (constRand (1 / 2)) 0) ! 1) = ''infected''"
    by blast
  from th len c0 t0
  have r0: "state (fst (updatePopulation mixed outOfRange (constRand (1 / 2)) 0) ! 0) = ''recovered''"
    by blast
  from th len c2 t2
  have r2: "state (fst (updatePopulation mixed outOfRange (constRand (1 / 2)) 0) ! 2) = ''healthy''"
    by blast
  from a have a': "\<exists>pop'. createPopulation (21 / 2) 0 = Inr pop' \<and> length pop' = 11"
    by simp
  from sz a' ne qa c0 c1 c2 r0 r1 r2 show ?thesis
    by blast
qed

text \<open>
  C5 as stated fails: \<^verbatim>\<open>createPopulation(2)\<close> returns two individuals although 2 is not
  a perfect square, \<^verbatim>\<open>createPopulation(10.5)\<close> returns eleven, and \<^verbatim>\<open>updatePopulation\<close>
  runs the round with the out-of-range parameters as they are: with every draw one half
  the healthy neighbour is infected within the round, which no infection rate of at most
  1 times \<open>0.3\<close> allows.
\<close>

theorem no_size_check_counterexample:
  "\<not> isl (createPopulation 2 0) \<and> length (projr (createPopulation 2 0)) = 2 \<and>
   \<not> isl (createPopulation (21 / 2) 0) \<and> length (projr (createPopulation (21 / 2) 0)) = 11 \<and>
   map state (fst (updatePopulation mixed outOfRange (constRand (1 / 2)) 0)) =
     [''recovered'', ''infected'', ''healthy'']"
  by (simp add: createPopulation_def mixed_def outOfRange_def constRand_def eval_defs)

section \<open>A fresh exposure is advanced in the same round (C6)\<close>

text \<open>
  C6. An individual in the pending exposures of a round was healthy, is exposed with
  \<^verbatim>\<open>daysExposed\<close> 0 after the commit, which precedes the state advance, and the state
  advance of the same round increments its counter: with an incubation time of at least 2
  it is exposed with \<^verbatim>\<open>daysExposed\<close> 1 on return.
\<close>

theorem fresh_exposure_advanced:
  assumes "j \<in> set (pending pop ps rnd k)" and "2 \<le> incubationTime ps"
  shows "j < length pop \<and> state (pop ! j) = ''healthy'' \<and>
         state (afterCommit pop ps rnd k ! j) = ''exposed'' \<and>
         daysExposed (afterCommit pop ps rnd k ! j) = 0 \<and>
         state (fst (updatePopulation pop ps rnd k) ! j) = ''exposed'' \<and>
         daysExposed (fst (updatePopulation pop ps rnd k) ! j) = 1"
proof -
  from pending_healthy[OF assms(1)] have j: "j < length pop" and h: "state (pop ! j) = ''healthy''"
    by simp_all
  have c: "afterCommit pop ps rnd k ! j = markExposed (setQuarantined (quarantineActive pop ps) (pop ! j))"
    using j assms(1) by (simp add: nth_afterCommit)
  from nth_updatePopulation[OF j, of ps rnd k] obtain k' where
    "fst (updatePopulation pop ps rnd k) ! j =
       fst (advanceIndividual ps rnd (afterCommit pop ps rnd k ! j) k')" ..
  then show ?thesis
    using j h assms(2) by (simp add: c markExposed_def advanceIndividual_def Let_def)
qed

theorem fresh_exposure_advanced_witness:
  "1 \<in> set (pending neighbours defaultSimulationParameters zeroRand 0) \<and>
   2 \<le> incubationTime defaultSimulationParameters \<and>
   state (fst (updatePopulation neighbours defaultSimulationParameters zeroRand 0) ! 1) = ''exposed'' \<and>
   daysExposed (fst (updatePopulation neighbours defaultSimulationParameters zeroRand 0) ! 1) = 1"
proof -
  have a: "1 \<in> set (pending neighbours defaultSimulationParameters zeroRand 0)"
    by (simp add: pending_def eval_defs)
  have b: "2 \<le> incubationTime defaultSimulationParameters"
    by (simp add: defaultSimulationParameters_def)
  from a b fresh_exposure_advanced[OF a b] show ?thesis
    by simp
qed

section \<open>An incubation time of one round (C7)\<close>

text \<open>
  C7. With \<^verbatim>\<open>incubationTime\<close> 1, an individual that is exposed with \<^verbatim>\<open>daysExposed\<close> 0 is,
  after one call of \<^verbatim>\<open>updatePopulation\<close>, infected with \<^verbatim>\<open>daysInfected\<close> 0 and
  \<^verbatim>\<open>newlyInfected\<close> true, whatever the other individuals are.
\<close>

theorem incubation_one:
  assumes "i < length pop" and "state (pop ! i) = ''exposed''" and "daysExposed (pop ! i) = 0"
    and "incubationTime ps = 1"
  shows "state (fst (updatePopulation pop ps rnd k) ! i) = ''infected'' \<and>
         daysInfected (fst (updatePopulation pop ps rnd k) ! i) = 0 \<and>
         newlyInfected (fst (updatePopulation pop ps rnd k) ! i)"
proof -
  have "state (afterCommit pop ps rnd k ! i) = ''exposed'' \<and>
        daysExposed (afterCommit pop ps rnd k ! i) = 0"
    using assms(1-3) by (simp add: nth_afterCommit markExposed_def setQuarantined_def)
  moreover from nth_updatePopulation[OF assms(1), of ps rnd k] obtain k' where
    "fst (updatePopulation pop ps rnd k) ! i =
       fst (advanceIndividual ps rnd (afterCommit pop ps rnd k ! i) k')" ..
  ultimately show ?thesis
    using assms(4) by (simp add: advanceIndividual_def Let_def)
qed

theorem incubation_one_witness:
  "(0::nat) < length incubating \<and> state (incubating ! 0) = ''exposed'' \<and>
   daysExposed (incubating ! 0) = 0 \<and>
   incubationTime (defaultSimulationParameters\<lparr>incubationTime := 1\<rparr>) = 1 \<and>
   state (fst (updatePopulation incubating (defaultSimulationParameters\<lparr>incubationTime := 1\<rparr>) zeroRand 0) ! 0) = ''infected'' \<and>
   daysInfected (fst (updatePopulation incubating (defaultSimulationParameters\<lparr>incubationTime := 1\<rparr>) zeroRand 0) ! 0) = 0 \<and>
   newlyInfected (fst (updatePopulation incubating (defaultSimulationParameters\<lparr>incubationTime := 1\<rparr>) zeroRand 0) ! 0)"
proof -
  have a: "(0::nat) < length incubating" and b: "state (incubating ! 0) = ''exposed''"
    and c: "daysExposed (incubating ! 0) = 0"
    by (simp_all add: incubating_def mkIndividual_def)
  have d: "incubationTime (defaultSimulationParameters\<lparr>incubationTime := 1\<rparr>) = 1"
    by simp
  from a b c d incubation_one[OF a b c d, of zeroRand 0] show ?thesis
    by simp
qed

section \<open>No spontaneous case (C10)\<close>

lemma contacts_noActiveCase:
  assumes "noActiveCase pop"
  shows "contacts pop = []"
proof (cases "contacts pop")
  case Nil
  then show ?thesis .
next
  case (Cons c cs)
  then have "(fst c, snd c) \<in> set (contacts pop)"
    by simp
  from contacts_sound[OF this] have "fst c < length pop" "state (pop ! fst c) = ''infected''"
    by (simp_all add: inContact_def)
  with assms show ?thesis
    by (simp add: noActiveCase_def list_all_length)
qed

lemma afterCommit_noActiveCase:
  assumes "noActiveCase pop"
  shows "afterCommit pop ps rnd k = pop"
proof -
  have "map (setQuarantined (quarantineActive pop ps)) pop = pop"
    using assms by (intro map_idI) (auto simp: noActiveCase_def list_all_iff setQuarantined_def)
  then show ?thesis
    using contacts_noActiveCase[OF assms]
    by (simp add: afterCommit_def pending_eq exposurePass_eq commitExposures_def)
qed

lemma advancePass_noActiveCase:
  assumes "noActiveCase pop" and "reinfectionProbability ps = 0" and "\<forall>n. 0 \<le> rnd n"
  shows "fst (advancePass ps rnd pop k) = pop"
  using assms(1)
proof (induction pop arbitrary: k)
  case Nil
  then show ?case by simp
next
  case (Cons p rest)
  from assms(3) have "\<not> rnd k < 0"
    by (simp add: not_less)
  with Cons.prems assms(2) have "fst (advanceIndividual ps rnd p k) = p"
    by (simp add: noActiveCase_def advanceIndividual_def)
  moreover from Cons have "fst (advancePass ps rnd rest k') = rest" for k'
    by (simp add: noActiveCase_def)
  ultimately show ?case
    by (simp add: advancePass_Cons del: advancePass.simps(2))
qed

lemma updatePopulation_noActiveCase:
  assumes "noActiveCase pop" and "reinfectionProbability ps = 0" and "\<forall>n. 0 \<le> rnd n"
  shows "fst (updatePopulation pop ps rnd k) = pop"
  using advancePass_noActiveCase[OF assms]
  by (simp add: updatePopulation_eq afterCommit_noActiveCase[OF assms(1)])

text \<open>
  C10. On a population with no infected and no exposed individual, with
  \<^verbatim>\<open>reinfectionProbability\<close> 0 and draws that are not negative (as those of
  \<^verbatim>\<open>Math.random()\<close> are), \<^verbatim>\<open>updatePopulation\<close> returns the population unchanged, and so
  does any number of rounds in a row: the counts per state stay the same.
\<close>

theorem no_spontaneous_cases:
  assumes "noActiveCase pop" and "reinfectionProbability ps = 0" and "\<forall>n. 0 \<le> rnd n"
  shows "fst (updatePopulation pop ps rnd k) = pop \<and>
         fst (runRounds n pop ps rnd k) = pop \<and>
         computeStatistics (fst (runRounds n pop ps rnd k)) r = computeStatistics pop r"
proof -
  have one: "fst (updatePopulation pop ps rnd k') = pop" for k'
    using assms by (rule updatePopulation_noActiveCase)
  have "fst (runRounds n pop ps rnd k) = pop"
  proof (induction n arbitrary: k)
    case 0
    then show ?case by simp
  next
    case (Suc n)
    obtain k1 where "updatePopulation pop ps rnd k = (pop, k1)"
      using one[of k] by (cases "updatePopulation pop ps rnd k") auto
    with Suc show ?case by simp
  qed
  with one show ?thesis by simp
qed

theorem no_spontaneous_cases_witness:
  "noActiveCase quiet \<and>
   reinfectionProbability (defaultSimulationParameters\<lparr>reinfectionProbability := 0\<rparr>) = 0 \<and>
   (\<forall>n. 0 \<le> zeroRand n) \<and>
   fst (updatePopulation quiet (defaultSimulationParameters\<lparr>reinfectionProbability := 0\<rparr>) zeroRand 0) = quiet \<and>
   fst (runRounds 3 quiet (defaultSimulationParameters\<lparr>reinfectionProbability := 0\<rparr>) zeroRand 0) = quiet"
proof -
  have a: "noActiveCase quiet"
    by (simp add: noActiveCase_def quiet_def mkIndividual_def)
  have b: "reinfectionProbability (defaultSimulationParameters\<lparr>reinfectionProbability := 0\<rparr>) = 0"
    by simp
  have c: "\<forall>n. 0 \<le> zeroRand n"
    by (simp add: zeroRand_def)
  from a b c no_spontaneous_cases[OF a b c, of 0 3] show ?thesis
    by simp
qed

end
